theory Spec2Isabelle
  imports Main "HOL-Library.AList"
begin

section \<open>Hangman: player storage and the guess loop\<close>

text \<open>
  A shallow embedding of \<^verbatim>\<open>Hangman.py\<close>. Python's \<^verbatim>\<open>str\<close> is modelled by
  \<^typ>\<open>string\<close>, one \<^typ>\<open>char\<close> per code point, which covers the code points
  below 256; Python's unbounded \<^verbatim>\<open>int\<close> is \<^typ>\<open>int\<close>. Printing is not modelled,
  except where a print indexes a list and so may raise.
\<close>

subsection \<open>Errors\<close>

text \<open>
  The exceptions the modelled code can raise: \<^verbatim>\<open>input()\<close> at the end of the input,
  \<^verbatim>\<open>json.load\<close> on a file that does not parse, and a list index out of range.
  No exception is caught anywhere in the source, so an error ends the run.
\<close>

datatype error = EOFError | JSONDecodeError | IndexError

subsection \<open>The player file\<close>

text \<open>
  A JSON object is an association list in insertion order, as a Python \<^verbatim>\<open>dict\<close>
  and \<^verbatim>\<open>json.dump\<close> keep it. The content of \<^verbatim>\<open>player.json\<close> is: no file,
  an object mapping names to objects of integer fields, or text that
  \<^verbatim>\<open>json.load\<close> rejects.
\<close>

type_synonym stats = "(string \<times> int) list"

type_synonym players = "(string \<times> stats) list"

datatype file_state = Missing | Json players | Unparsable

record player =
  player_name :: string
  score :: int
  rounds :: int

text \<open>\<^verbatim>\<open>Player.__init__(player_name, score=0, rounds=0)\<close> with the defaults taken.\<close>

definition new_player :: "string \<Rightarrow> player" where
  "new_player name = \<lparr>player_name = name, score = 0, rounds = 0\<rparr>"

definition load_players :: "file_state \<Rightarrow> error + players" where
  "load_players f =
     (case f of
        Missing \<Rightarrow> Inr []
      | Json ps \<Rightarrow> Inr ps
      | Unparsable \<Rightarrow> Inl JSONDecodeError)"

text \<open>The entry \<^verbatim>\<open>{'Score': p.score, 'Rounds': p.rounds}\<close>.\<close>

definition entry_of :: "player \<Rightarrow> stats" where
  "entry_of p = [(''Score'', score p), (''Rounds'', rounds p)]"

text \<open>
  \<^verbatim>\<open>players[name] = v\<close> is \<^const>\<open>AList.update\<close>: an existing key keeps its
  place and gets the new value, a new key goes to the end.
\<close>

definition create_player :: "string \<Rightarrow> file_state \<Rightarrow> error + (player \<times> file_state)" where
  "create_player name f =
     (let p = new_player name in
      case load_players f of
        Inl e \<Rightarrow> Inl e
      | Inr ps \<Rightarrow> Inr (p, Json (AList.update name (entry_of p) ps)))"

definition player_exists :: "string \<Rightarrow> file_state \<Rightarrow> error + bool" where
  "player_exists name f =
     (case load_players f of
        Inl e \<Rightarrow> Inl e
      | Inr ps \<Rightarrow> Inr (name \<in> set (map fst ps)))"

definition clear_player :: "file_state \<Rightarrow> file_state" where
  "clear_player f = Json []"

definition update_player :: "player \<Rightarrow> file_state \<Rightarrow> error + file_state" where
  "update_player p f =
     (case load_players f of
        Inl e \<Rightarrow> Inl e
      | Inr ps \<Rightarrow> Inr (Json (AList.update (player_name p) (entry_of p) ps)))"

subsection \<open>Strings\<close>

text \<open>
  \<^verbatim>\<open>str.isspace\<close> and \<^verbatim>\<open>str.isalpha\<close> on one character, by code point:
  the white space and the letters among the code points below 256.
\<close>

definition isspace :: "char \<Rightarrow> bool" where
  "isspace c =
     (let n = (of_char c :: nat) in
      (9 \<le> n \<and> n \<le> 13) \<or> (28 \<le> n \<and> n \<le> 32) \<or> n = 133 \<or> n = 160)"

definition isalpha :: "char \<Rightarrow> bool" where
  "isalpha c =
     (let n = (of_char c :: nat) in
      (65 \<le> n \<and> n \<le> 90) \<or> (97 \<le> n \<and> n \<le> 122) \<or> n = 170 \<or> n = 181 \<or> n = 186
      \<or> (192 \<le> n \<and> n \<le> 214) \<or> (216 \<le> n \<and> n \<le> 246) \<or> (248 \<le> n \<and> n \<le> 255))"

text \<open>\<^verbatim>\<open>s.isalpha()\<close>: at least one character, and all of them letters.\<close>

definition str_isalpha :: "string \<Rightarrow> bool" where
  "str_isalpha s = (s \<noteq> [] \<and> list_all isalpha s)"

text \<open>\<^verbatim>\<open>s.strip()\<close>: white space removed at both ends.\<close>

definition strip :: "string \<Rightarrow> string" where
  "strip s = rev (dropWhile isspace (rev (dropWhile isspace s)))"

subsection \<open>The game\<close>

text \<open>The list in \<^verbatim>\<open>get_random_word\<close>, from which the secret word is drawn.\<close>

definition words :: "string list" where
  "words =
    [''apple'', ''banana'', ''orange'', ''grape'', ''pear'', ''peach'', ''cherry'',
     ''lemon'', ''lime'', ''mango'', ''book'', ''pen'', ''paper'', ''notebook'',
     ''pencil'', ''eraser'', ''ruler'', ''desk'', ''chair'', ''lamp'', ''dog'',
     ''cat'', ''bird'', ''fish'', ''horse'', ''cow'', ''sheep'', ''goat'', ''pig'',
     ''rabbit'', ''run'', ''jump'', ''swim'', ''fly'', ''write'', ''read'', ''draw'',
     ''sing'', ''dance'', ''play'', ''happy'', ''sad'', ''angry'', ''tired'',
     ''excited'', ''scared'', ''brave'', ''funny'', ''kind'', ''smart'', ''house'',
     ''school'', ''office'', ''shop'', ''park'', ''garden'', ''street'', ''city'',
     ''village'', ''country'', ''car'', ''bike'', ''bus'', ''train'', ''plane'',
     ''boat'', ''truck'', ''scooter'', ''taxi'', ''subway'', ''red'', ''blue'',
     ''green'', ''yellow'', ''orange'', ''purple'', ''black'', ''white'', ''pink'',
     ''brown'', ''day'', ''night'', ''morning'', ''evening'', ''week'', ''month'',
     ''year'', ''hour'', ''minute'', ''second'', ''food'', ''water'', ''milk'',
     ''bread'', ''cheese'', ''meat'', ''rice'', ''soup'', ''fruit'', ''vegetable'',
     ''light'', ''dark'', ''hot'', ''cold'', ''warm'', ''cool'', ''strong'', ''weak'',
     ''big'', ''small'']"

text \<open>\<^verbatim>\<open>all(letter in guessed_letters for letter in word)\<close>.\<close>

definition guessed_word :: "string \<Rightarrow> string \<Rightarrow> bool" where
  "guessed_word word guessed_letters = list_all (\<lambda>letter. letter \<in> set guessed_letters) word"

text \<open>
  \<^verbatim>\<open>hangman_stage\<close> prints \<^verbatim>\<open>stage[attempt]\<close> from a list of 7 drawings; only
  whether the index is in range is kept (Python takes \<open>-7\<close> to \<open>6\<close>).
\<close>

definition hangman_stage :: "int \<Rightarrow> error + unit" where
  "hangman_stage attempt = (if - 7 \<le> attempt \<and> attempt < 7 then Inr () else Inl IndexError)"

text \<open>
  The variables of \<^verbatim>\<open>play_game\<close>'s loop, with \<^verbatim>\<open>self.player\<close> and the player
  file. An element of \<^verbatim>\<open>guessed_letters\<close> is a string of one character, kept as a
  \<^typ>\<open>char\<close>.
\<close>

record round_state =
  guessed_letters :: string
  wrong_letters :: "string list"
  attempt :: int
  player :: player
  json_file :: file_state

text \<open>
  \<^verbatim>\<open>for i, l in enumerate(word): if l == guess: guessed_letters[i] = guess\<close>,
  from index \<open>i\<close> on; an assignment past the end of the list raises.
\<close>

fun reveal :: "nat \<Rightarrow> char \<Rightarrow> string \<Rightarrow> string \<Rightarrow> error + string" where
  "reveal i guess [] gl = Inr gl"
| "reveal i guess (l # ls) gl =
     (if l = guess
      then (if i < length gl then reveal (Suc i) guess ls (gl[i := guess]) else Inl IndexError)
      else reveal (Suc i) guess ls gl)"

text \<open>
  One pass of the loop body from \<^verbatim>\<open>input()\<close> on, given the line read. A guess
  that passed the validation is one character, so \<^verbatim>\<open>guess in word\<close> asks whether
  that character occurs in the word.
\<close>

definition process_guess :: "string \<Rightarrow> round_state \<Rightarrow> string \<Rightarrow> error + round_state" where
  "process_guess word st line =
     (let guess = strip line in
      if guess \<in> set (wrong_letters st) then Inr st
      else if length guess \<noteq> 1 \<or> \<not> str_isalpha guess then Inr st
      else if hd guess \<in> set word then
        (case reveal 0 (hd guess) word (guessed_letters st) of
           Inl e \<Rightarrow> Inl e
         | Inr gl \<Rightarrow>
             Inr (st\<lparr>guessed_letters := gl,
                     player := (player st)\<lparr>score := score (player st) + 10\<rparr>\<rparr>))
      else
        (case hangman_stage (attempt st) of
           Inl e \<Rightarrow> Inl e
         | Inr _ \<Rightarrow>
             Inr (st\<lparr>wrong_letters := wrong_letters st @ [guess],
                     attempt := attempt st + 1\<rparr>)))"

text \<open>
  The \<^verbatim>\<open>while True\<close> loop, on the lines that \<^verbatim>\<open>input()\<close> will return. Every pass
  that does not return reads one line, and \<^verbatim>\<open>input()\<close> raises when none is left.
  The result is the pair returned and the state at the return.
\<close>

fun game_loop ::
  "string \<Rightarrow> round_state \<Rightarrow> string list \<Rightarrow> error + ((bool \<times> string option) \<times> round_state)" where
  "game_loop word st inputs =
     (if guessed_word word (guessed_letters st) then
        (let p = (player st)\<lparr>rounds := rounds (player st) + 1\<rparr> in
         case update_player p (json_file st) of
           Inl e \<Rightarrow> Inl e
         | Inr f \<Rightarrow> Inr ((True, None), st\<lparr>player := p, json_file := f\<rparr>))
      else if attempt st = 7 then
        (case hangman_stage (attempt st - 1) of
           Inl e \<Rightarrow> Inl e
         | Inr _ \<Rightarrow>
             (case update_player (player st) (json_file st) of
                Inl e \<Rightarrow> Inl e
              | Inr f \<Rightarrow> Inr ((False, Some word), st\<lparr>json_file := f\<rparr>)))
      else
        (case inputs of
           [] \<Rightarrow> Inl EOFError
         | line # rest \<Rightarrow>
             (case process_guess word st line of
                Inl e \<Rightarrow> Inl e
              | Inr st' \<Rightarrow> game_loop word st' rest)))"

declare game_loop.simps [simp del]

text \<open>The state in which \<^verbatim>\<open>play_game\<close> enters the loop.\<close>

definition initial_state :: "string \<Rightarrow> player \<Rightarrow> file_state \<Rightarrow> round_state" where
  "initial_state word p f =
     \<lparr>guessed_letters = replicate (length word) CHR ''_'', wrong_letters = [],
      attempt = 0, player = p, json_file = f\<rparr>"

text \<open>
  \<^verbatim>\<open>play_game\<close>, given the word that \<^verbatim>\<open>get_random_word\<close> drew (an element of
  \<^const>\<open>words\<close>), the player, the file and the lines to come.
\<close>

definition play_game ::
  "string \<Rightarrow> player \<Rightarrow> file_state \<Rightarrow> string list \<Rightarrow> error + ((bool \<times> string option) \<times> round_state)" where
  "play_game word p f inputs = game_loop word (initial_state word p f) inputs"

subsection \<open>What the file holds for the player\<close>

text \<open>
  The entry that \<^const>\<open>load_players\<close> gives for the name of the state's player, and
  whether it is the player's current score and rounds.
\<close>

definition stored_entry :: "round_state \<Rightarrow> error + stats option" where
  "stored_entry st =
     (case load_players (json_file st) of
        Inl e \<Rightarrow> Inl e
      | Inr ps \<Rightarrow> Inr (map_of ps (player_name (player st))))"

definition flushed :: "round_state \<Rightarrow> bool" where
  "flushed st = (stored_entry st = Inr (Some (entry_of (player st))))"

text \<open>
  The revealed letters after correct guesses only: the letters of the word guessed so
  far (the set \<open>S\<close>) are shown, the others are underscores.
\<close>

definition shown :: "char set \<Rightarrow> string \<Rightarrow> string" where
  "shown S w = map (\<lambda>l. if l \<in> S then l else CHR ''_'') w"

section \<open>Properties of the player file\<close>

lemma load_players_readable:
  "f \<noteq> Unparsable \<Longrightarrow> \<exists>ps. load_players f = Inr ps"
  by (cases f) (simp_all add: load_players_def)

lemma update_player_readable:
  assumes "load_players f = Inr ps"
  shows "update_player p f = Inr (Json (AList.update (player_name p) (entry_of p) ps))"
  using assms by (simp add: update_player_def)

lemma update_player_unparsable:
  "update_player p Unparsable = Inl JSONDecodeError"
  by (simp add: update_player_def load_players_def)

text \<open>
  C8. After \<^verbatim>\<open>create_player(name)\<close> on any file that is missing or holds a mapping,
  loading the file maps \<open>name\<close> to the entry with the fields \<^verbatim>\<open>Score\<close> and
  \<^verbatim>\<open>Rounds\<close>, both 0, whatever entry \<open>name\<close> had before; the player returned has
  score 0 and rounds 0.
\<close>

theorem create_player_then_load:
  assumes "f \<noteq> Unparsable"
  shows "\<exists>p f' ps'. create_player name f = Inr (p, f')
           \<and> player_name p = name \<and> score p = 0 \<and> rounds p = 0
           \<and> load_players f' = Inr ps'
           \<and> map_of ps' name = Some [(''Score'', 0), (''Rounds'', 0)]"
proof -
  from assms obtain ps where ld: "load_players f = Inr ps"
    using load_players_readable by blast
  let ?p = "new_player name"
  let ?ps' = "AList.update name (entry_of ?p) ps"
  have "create_player name f = Inr (?p, Json ?ps')"
    using ld by (simp add: create_player_def Let_def)
  moreover have "load_players (Json ?ps') = Inr ?ps'"
    by (simp add: load_players_def)
  moreover have "map_of ?ps' name = Some [(''Score'', 0), (''Rounds'', 0)]"
    by (simp add: update_conv' entry_of_def new_player_def)
  moreover have "player_name ?p = name \<and> score ?p = 0 \<and> rounds ?p = 0"
    by (simp add: new_player_def)
  ultimately show ?thesis by blast
qed

theorem create_player_then_load_witness:
  "Json [(''Alice'', [(''Score'', 50), (''Rounds'', 2)])] \<noteq> Unparsable
   \<and> (\<exists>p f' ps'. create_player ''Alice'' (Json [(''Alice'', [(''Score'', 50), (''Rounds'', 2)])]) = Inr (p, f')
           \<and> player_name p = ''Alice'' \<and> score p = 0 \<and> rounds p = 0
           \<and> load_players f' = Inr ps'
           \<and> map_of ps' ''Alice'' = Some [(''Score'', 0), (''Rounds'', 0)])"
proof -
  have h: "Json [(''Alice'', [(''Score'', 50), (''Rounds'', 2)])] \<noteq> Unparsable"
    by simp
  from create_player_then_load [OF h, of "''Alice''"] h show ?thesis
    by blast
qed

text \<open>
  C9. \<^verbatim>\<open>update_player\<close> is idempotent: on every file, updating twice with the same
  player gives what updating once gives (an unparsable file raises both times). On a
  file that is missing or holds a mapping, the update succeeds, the entry of the
  player's name then holds the player's score and rounds, and every other name maps
  to what it mapped to before.
\<close>

theorem update_player_idempotent:
  "(case update_player p f of Inl e \<Rightarrow> Inl e | Inr f' \<Rightarrow> update_player p f') = update_player p f
   \<and> (\<forall>ps. load_players f = Inr ps \<longrightarrow>
        (\<exists>f' ps'. update_player p f = Inr f' \<and> load_players f' = Inr ps'
            \<and> map_of ps' (player_name p) = Some [(''Score'', score p), (''Rounds'', rounds p)]
            \<and> (\<forall>n. n \<noteq> player_name p \<longrightarrow> map_of ps' n = map_of ps n)))"
proof (intro conjI allI impI)
  show "(case update_player p f of Inl e \<Rightarrow> Inl e | Inr f' \<Rightarrow> update_player p f') = update_player p f"
    by (cases f) (simp_all add: update_player_def load_players_def)
next
  fix ps
  assume ld: "load_players f = Inr ps"
  let ?ps' = "AList.update (player_name p) (entry_of p) ps"
  have "update_player p f = Inr (Json ?ps')"
    using ld by (rule update_player_readable)
  moreover have "load_players (Json ?ps') = Inr ?ps'"
    by (simp add: load_players_def)
  moreover have "map_of ?ps' (player_name p) = Some [(''Score'', score p), (''Rounds'', rounds p)]"
    by (simp add: update_conv' entry_of_def)
  moreover have "\<forall>n. n \<noteq> player_name p \<longrightarrow> map_of ?ps' n = map_of ps n"
    by (simp add: update_conv')
  ultimately show "\<exists>f' ps'. update_player p f = Inr f' \<and> load_players f' = Inr ps'
            \<and> map_of ps' (player_name p) = Some [(''Score'', score p), (''Rounds'', rounds p)]
            \<and> (\<forall>n. n \<noteq> player_name p \<longrightarrow> map_of ps' n = map_of ps n)"
    by blast
qed

theorem update_player_idempotent_witness:
  "load_players (Json [(''Alice'', [(''Score'', 50), (''Rounds'', 2)]), (''Bob'', [(''Score'', 0), (''Rounds'', 0)])])
     = Inr [(''Alice'', [(''Score'', 50), (''Rounds'', 2)]), (''Bob'', [(''Score'', 0), (''Rounds'', 0)])]
   \<and> update_player \<lparr>player_name = ''Bob'', score = 30, rounds = 1\<rparr>
        (Json [(''Alice'', [(''Score'', 50), (''Rounds'', 2)]), (''Bob'', [(''Score'', 0), (''Rounds'', 0)])])
     = Inr (Json [(''Alice'', [(''Score'', 50), (''Rounds'', 2)]), (''Bob'', [(''Score'', 30), (''Rounds'', 1)])])
   \<and> update_player \<lparr>player_name = ''Bob'', score = 30, rounds = 1\<rparr>
        (Json [(''Alice'', [(''Score'', 50), (''Rounds'', 2)]), (''Bob'', [(''Score'', 30), (''Rounds'', 1)])])
     = Inr (Json [(''Alice'', [(''Score'', 50), (''Rounds'', 2)]), (''Bob'', [(''Score'', 30), (''Rounds'', 1)])])"
  using update_player_idempotent [of "\<lparr>player_name = ''Bob'', score = 30, rounds = 1\<rparr>"
      "Json [(''Alice'', [(''Score'', 50), (''Rounds'', 2)]), (''Bob'', [(''Score'', 0), (''Rounds'', 0)])]"]
  by (simp add: update_player_def load_players_def entry_of_def)

section \<open>Strings, the reveal loop and the branches of the guess loop\<close>

lemma isalpha_not_isspace: "isalpha c \<Longrightarrow> \<not> isspace c"
  by (auto simp: isalpha_def isspace_def Let_def)

lemma strip_single: "\<not> isspace c \<Longrightarrow> strip [c] = [c]"
  by (simp add: strip_def)

lemma strip_letter: "isalpha c \<Longrightarrow> strip [c] = [c]"
  by (simp add: strip_single isalpha_not_isspace)

lemma underscore_not_alpha: "\<not> isalpha CHR ''_''"
  by (simp add: isalpha_def)

lemma words_alpha: "w \<in> set words \<Longrightarrow> list_all isalpha w"
proof -
  have "list_all (list_all isalpha) words" by code_simp
  then show "w \<in> set words \<Longrightarrow> list_all isalpha w"
    by (simp add: list_all_iff)
qed

lemma words_nonempty: "w \<in> set words \<Longrightarrow> w \<noteq> []"
proof -
  have "list_all (\<lambda>w. w \<noteq> []) words" by code_simp
  then show "w \<in> set words \<Longrightarrow> w \<noteq> []"
    by (simp add: list_all_iff)
qed

lemma reveal_from:
  "i + length ls = length gl \<Longrightarrow>
   reveal i g ls gl = Inr (take i gl @ map2 (\<lambda>l x. if l = g then g else x) ls (drop i gl))"
proof (induction ls arbitrary: i gl)
  case Nil
  then show ?case by simp
next
  case (Cons l ls)
  from Cons.prems have lt: "i < length gl" by simp
  have dr: "drop i gl = gl ! i # drop (Suc i) gl"
    using lt by (simp add: Cons_nth_drop_Suc)
  show ?case
  proof (cases "l = g")
    case True
    have "reveal (Suc i) g ls (gl[i := g]) =
          Inr (take (Suc i) (gl[i := g]) @ map2 (\<lambda>l x. if l = g then g else x) ls (drop (Suc i) (gl[i := g])))"
      using Cons.prems by (intro Cons.IH) simp
    moreover have "take (Suc i) (gl[i := g]) = take i gl @ [g]"
      using lt by (simp add: take_Suc_conv_app_nth)
    ultimately show ?thesis using True lt dr by simp
  next
    case False
    have "reveal (Suc i) g ls gl =
          Inr (take (Suc i) gl @ map2 (\<lambda>l x. if l = g then g else x) ls (drop (Suc i) gl))"
      using Cons.prems by (intro Cons.IH) simp
    moreover have "take (Suc i) gl = take i gl @ [gl ! i]"
      using lt by (simp add: take_Suc_conv_app_nth)
    ultimately show ?thesis using False dr by simp
  qed
qed

lemma reveal_all:
  "length gl = length word \<Longrightarrow>
   reveal 0 g word gl = Inr (map2 (\<lambda>l x. if l = g then g else x) word gl)"
  using reveal_from [of 0 word gl g] by simp

lemma process_guess_duplicate:
  "strip line \<in> set (wrong_letters st) \<Longrightarrow> process_guess word st line = Inr st"
  by (simp add: process_guess_def)

lemma process_guess_invalid:
  "length (strip line) \<noteq> 1 \<or> \<not> str_isalpha (strip line) \<Longrightarrow> process_guess word st line = Inr st"
  by (auto simp: process_guess_def Let_def)

lemma process_guess_correct:
  assumes "strip line = [g]" "isalpha g" "[g] \<notin> set (wrong_letters st)" "g \<in> set word"
    and "length (guessed_letters st) = length word"
  shows "process_guess word st line =
         Inr (st\<lparr>guessed_letters := map2 (\<lambda>l x. if l = g then g else x) word (guessed_letters st),
                 player := (player st)\<lparr>score := score (player st) + 10\<rparr>\<rparr>)"
  using assms by (simp add: process_guess_def str_isalpha_def reveal_all)

lemma process_guess_wrong:
  assumes "strip line = [g]" "isalpha g" "[g] \<notin> set (wrong_letters st)" "g \<notin> set word"
    and "- 7 \<le> attempt st" "attempt st < 7"
  shows "process_guess word st line =
         Inr (st\<lparr>wrong_letters := wrong_letters st @ [[g]], attempt := attempt st + 1\<rparr>)"
  using assms by (simp add: process_guess_def str_isalpha_def hangman_stage_def)

lemma process_guess_file:
  "process_guess word st line = Inr st' \<Longrightarrow> json_file st' = json_file st"
  by (auto simp: process_guess_def Let_def split: if_splits sum.splits)

lemma game_loop_won:
  assumes "guessed_word word (guessed_letters st)" "load_players (json_file st) = Inr ps"
  shows "game_loop word st inputs =
         Inr ((True, None),
              st\<lparr>player := (player st)\<lparr>rounds := rounds (player st) + 1\<rparr>,
                 json_file := Json (AList.update (player_name (player st))
                     (entry_of ((player st)\<lparr>rounds := rounds (player st) + 1\<rparr>)) ps)\<rparr>)"
  using assms by (simp add: game_loop.simps [of word st inputs] Let_def update_player_def)

lemma game_loop_lost:
  assumes "\<not> guessed_word word (guessed_letters st)" "attempt st = 7"
    and "load_players (json_file st) = Inr ps"
  shows "game_loop word st inputs =
         Inr ((False, Some word),
              st\<lparr>json_file := Json (AList.update (player_name (player st)) (entry_of (player st)) ps)\<rparr>)"
  using assms by (simp add: game_loop.simps [of word st inputs] update_player_def hangman_stage_def)

lemma game_loop_step:
  assumes "\<not> guessed_word word (guessed_letters st)" "attempt st \<noteq> 7"
  shows "game_loop word st (line # rest) =
         (case process_guess word st line of Inl e \<Rightarrow> Inl e | Inr st' \<Rightarrow> game_loop word st' rest)"
  using assms by (simp add: game_loop.simps [of word st "line # rest"])

lemma game_loop_eof:
  assumes "\<not> guessed_word word (guessed_letters st)" "attempt st \<noteq> 7"
  shows "game_loop word st [] = Inl EOFError"
  using assms by (simp add: game_loop.simps [of word st "[]"])

lemma flushed_after_update:
  "flushed (st\<lparr>player := p, json_file := Json (AList.update (player_name p) (entry_of p) ps)\<rparr>)"
  by (simp add: flushed_def stored_entry_def load_players_def update_conv')

section \<open>What the loop keeps true\<close>

text \<open>
  The states of a round: as many revealed letters as the word has letters, and an attempt
  count from 0 to 7. The round starts in such a state and a guess leads from one to
  another; from one with an attempt count below 7, where the loop reads a guess, no
  index is out of range, so a guess raises nothing.
\<close>

lemma initial_state_shape:
  "length (guessed_letters (initial_state word p f)) = length word
   \<and> attempt (initial_state word p f) = 0"
  by (simp add: initial_state_def)

lemma process_guess_shape:
  assumes "process_guess word st line = Inr st'"
    and "length (guessed_letters st) = length word" "0 \<le> attempt st" "attempt st \<le> 7"
  shows "length (guessed_letters st') = length word \<and> 0 \<le> attempt st' \<and> attempt st' \<le> 7"
  using assms
  by (auto simp: process_guess_def Let_def reveal_all hangman_stage_def split: if_splits)

lemma process_guess_no_error:
  assumes "length (guessed_letters st) = length word" "0 \<le> attempt st" "attempt st < 7"
  shows "\<exists>st'. process_guess word st line = Inr st'"
  using assms by (simp add: process_guess_def Let_def reveal_all hangman_stage_def)

section \<open>One guess\<close>

text \<open>
  In what follows a guess is the line read with the white space at its ends removed, the
  source's variable \<^verbatim>\<open>guess\<close>; it is accepted when it passes the duplicate check and
  the validation.
\<close>

text \<open>
  C5. An accepted guess \<open>g\<close> that occurs in the word: every position of the word holding
  \<open>g\<close> is revealed and the other positions keep what they showed, the player's score
  grows by exactly 10 whatever the number of positions revealed, and the attempt count,
  the wrong letters, the rounds and the file are unchanged.
\<close>

theorem correct_guess_reveals_and_scores:
  assumes "strip line = [g]" "isalpha g" "[g] \<notin> set (wrong_letters st)" "g \<in> set word"
    and "length (guessed_letters st) = length word"
  shows "\<exists>st'. process_guess word st line = Inr st'
           \<and> length (guessed_letters st') = length word
           \<and> (\<forall>i<length word. guessed_letters st' ! i = (if word ! i = g then g else guessed_letters st ! i))
           \<and> score (player st') = score (player st) + 10
           \<and> rounds (player st') = rounds (player st)
           \<and> player_name (player st') = player_name (player st)
           \<and> attempt st' = attempt st
           \<and> wrong_letters st' = wrong_letters st
           \<and> json_file st' = json_file st"
proof -
  let ?gl = "map2 (\<lambda>l x. if l = g then g else x) word (guessed_letters st)"
  let ?st' = "st\<lparr>guessed_letters := ?gl, player := (player st)\<lparr>score := score (player st) + 10\<rparr>\<rparr>"
  have "process_guess word st line = Inr ?st'"
    using assms by (rule process_guess_correct)
  moreover have "length (guessed_letters ?st') = length word"
    using assms(5) by simp
  moreover have "\<forall>i<length word. guessed_letters ?st' ! i = (if word ! i = g then g else guessed_letters st ! i)"
    using assms(5) by simp
  ultimately show ?thesis by simp
qed

theorem correct_guess_reveals_and_scores_witness:
  "strip ''o'' = [CHR ''o''] \<and> isalpha CHR ''o''
   \<and> [CHR ''o''] \<notin> set (wrong_letters (initial_state ''book'' (new_player ''bob'') Missing))
   \<and> CHR ''o'' \<in> set ''book''
   \<and> length (guessed_letters (initial_state ''book'' (new_player ''bob'') Missing)) = length ''book''
   \<and> process_guess ''book'' (initial_state ''book'' (new_player ''bob'') Missing) ''o'' =
       Inr \<lparr>guessed_letters = ''_oo_'', wrong_letters = [], attempt = 0,
            player = \<lparr>player_name = ''bob'', score = 10, rounds = 0\<rparr>, json_file = Missing\<rparr>"
proof -
  have h1: "strip ''o'' = [CHR ''o'']" by (simp add: strip_def isspace_def)
  have h2: "isalpha CHR ''o''" by (simp add: isalpha_def)
  have h3: "[CHR ''o''] \<notin> set (wrong_letters (initial_state ''book'' (new_player ''bob'') Missing))"
    by (simp add: initial_state_def)
  have h4: "CHR ''o'' \<in> set ''book''" by simp
  have h5: "length (guessed_letters (initial_state ''book'' (new_player ''bob'') Missing)) = length ''book''"
    by (simp add: initial_state_def)
  from correct_guess_reveals_and_scores [OF h1 h2 h3 h4 h5] h1 h2 h3 h4 h5 show ?thesis
    by (simp add: process_guess_def str_isalpha_def initial_state_def new_player_def)
qed

text \<open>
  C6. A guess that is not exactly one alphabetic character is rejected: the whole state
  (attempt count, revealed letters, wrong letters, score, rounds, file) is unchanged,
  and a round in progress goes on to read the next line.
\<close>

theorem invalid_guess_rejected:
  assumes "length (strip line) \<noteq> 1 \<or> \<not> str_isalpha (strip line)"
  shows "process_guess word st line = Inr st
         \<and> (\<not> guessed_word word (guessed_letters st) \<and> attempt st \<noteq> 7
              \<longrightarrow> game_loop word st (line # rest) = game_loop word st rest)"
  using assms by (simp add: process_guess_invalid game_loop_step)

theorem invalid_guess_rejected_witness:
  "length (strip ''ab'') = 2
   \<and> \<not> str_isalpha (strip ''3'')
   \<and> length (strip '''') = 0
   \<and> \<not> guessed_word ''cat'' (guessed_letters (initial_state ''cat'' (new_player ''bob'') Missing))
   \<and> attempt (initial_state ''cat'' (new_player ''bob'') Missing) \<noteq> 7
   \<and> process_guess ''cat'' (initial_state ''cat'' (new_player ''bob'') Missing) ''ab''
        = Inr (initial_state ''cat'' (new_player ''bob'') Missing)
   \<and> process_guess ''cat'' (initial_state ''cat'' (new_player ''bob'') Missing) ''3''
        = Inr (initial_state ''cat'' (new_player ''bob'') Missing)
   \<and> process_guess ''cat'' (initial_state ''cat'' (new_player ''bob'') Missing) ''''
        = Inr (initial_state ''cat'' (new_player ''bob'') Missing)
   \<and> game_loop ''cat'' (initial_state ''cat'' (new_player ''bob'') Missing) [''ab'', ''3'', '''']
        = Inl EOFError"
proof -
  let ?st = "initial_state ''cat'' (new_player ''bob'') Missing"
  have a: "length (strip ''ab'') \<noteq> 1 \<or> \<not> str_isalpha (strip ''ab'')"
    by (simp add: strip_def isspace_def)
  have b: "length (strip ''3'') \<noteq> 1 \<or> \<not> str_isalpha (strip ''3'')"
    by (simp add: strip_def isspace_def str_isalpha_def isalpha_def)
  have c: "length (strip '''') \<noteq> 1 \<or> \<not> str_isalpha (strip '''')"
    by (simp add: strip_def)
  have ng: "\<not> guessed_word ''cat'' (guessed_letters ?st)"
    by (simp add: guessed_word_def initial_state_def)
  have na: "attempt ?st \<noteq> 7" by (simp add: initial_state_def)
  have e: "game_loop ''cat'' ?st [] = Inl EOFError"
    using ng na by (rule game_loop_eof)
  from invalid_guess_rejected [OF a, of "''cat''" ?st "[''3'', '''']"]
       invalid_guess_rejected [OF b, of "''cat''" ?st "['''']"]
       invalid_guess_rejected [OF c, of "''cat''" ?st "[]"]
       a b c ng na e
  show ?thesis
    by (simp add: strip_def isspace_def str_isalpha_def isalpha_def)
qed

text \<open>
  C7. A guess that is already among the wrong letters is rejected with the whole state
  unchanged, and a round in progress goes on to read the next line. In particular a wrong
  letter guessed twice in a row raises the attempt count the first time only.
\<close>

theorem duplicate_wrong_guess_rejected:
  "(strip line \<in> set (wrong_letters st) \<longrightarrow>
      process_guess word st line = Inr st
      \<and> (\<not> guessed_word word (guessed_letters st) \<and> attempt st \<noteq> 7
           \<longrightarrow> game_loop word st (line # rest) = game_loop word st rest))
   \<and> (strip line = [g] \<and> isalpha g \<and> g \<notin> set word \<and> [g] \<notin> set (wrong_letters st)
        \<and> 0 \<le> attempt st \<and> attempt st < 7 \<longrightarrow>
      (\<exists>st1. process_guess word st line = Inr st1 \<and> attempt st1 = attempt st + 1
          \<and> wrong_letters st1 = wrong_letters st @ [[g]]
          \<and> process_guess word st1 line = Inr st1))"
proof (intro conjI impI)
  assume d: "strip line \<in> set (wrong_letters st)"
  then show "process_guess word st line = Inr st" by (rule process_guess_duplicate)
  assume "\<not> guessed_word word (guessed_letters st) \<and> attempt st \<noteq> 7"
  then show "game_loop word st (line # rest) = game_loop word st rest"
    using d by (simp add: game_loop_step process_guess_duplicate)
next
  assume h: "strip line = [g] \<and> isalpha g \<and> g \<notin> set word \<and> [g] \<notin> set (wrong_letters st)
        \<and> 0 \<le> attempt st \<and> attempt st < 7"
  let ?st1 = "st\<lparr>wrong_letters := wrong_letters st @ [[g]], attempt := attempt st + 1\<rparr>"
  have "process_guess word st line = Inr ?st1"
    using h by (intro process_guess_wrong) simp_all
  moreover have "process_guess word ?st1 line = Inr ?st1"
    using h by (intro process_guess_duplicate) simp
  ultimately show "\<exists>st1. process_guess word st line = Inr st1 \<and> attempt st1 = attempt st + 1
          \<and> wrong_letters st1 = wrong_letters st @ [[g]]
          \<and> process_guess word st1 line = Inr st1"
    by simp
qed

theorem duplicate_wrong_guess_rejected_witness:
  "strip ''x'' = [CHR ''x''] \<and> isalpha CHR ''x'' \<and> CHR ''x'' \<notin> set ''dog''
   \<and> [CHR ''x''] \<notin> set (wrong_letters (initial_state ''dog'' (new_player ''bob'') Missing))
   \<and> 0 \<le> attempt (initial_state ''dog'' (new_player ''bob'') Missing)
   \<and> attempt (initial_state ''dog'' (new_player ''bob'') Missing) < 7
   \<and> process_guess ''dog'' (initial_state ''dog'' (new_player ''bob'') Missing) ''x''
       = Inr \<lparr>guessed_letters = ''___'', wrong_letters = [''x''], attempt = 1,
              player = new_player ''bob'', json_file = Missing\<rparr>
   \<and> strip ''x'' \<in> set (wrong_letters \<lparr>guessed_letters = ''___'', wrong_letters = [''x''], attempt = 1,
              player = new_player ''bob'', json_file = Missing\<rparr>)
   \<and> process_guess ''dog'' \<lparr>guessed_letters = ''___'', wrong_letters = [''x''], attempt = 1,
              player = new_player ''bob'', json_file = Missing\<rparr> ''x''
       = Inr \<lparr>guessed_letters = ''___'', wrong_letters = [''x''], attempt = 1,
              player = new_player ''bob'', json_file = Missing\<rparr>"
proof -
  let ?st = "initial_state ''dog'' (new_player ''bob'') Missing"
  let ?st1 = "\<lparr>guessed_letters = ''___'', wrong_letters = [''x''], attempt = 1,
              player = new_player ''bob'', json_file = Missing\<rparr>"
  have h1: "strip ''x'' = [CHR ''x'']" by (simp add: strip_def isspace_def)
  have h2: "isalpha CHR ''x''" by (simp add: isalpha_def)
  have h3: "CHR ''x'' \<notin> set ''dog''" by simp
  have h4: "[CHR ''x''] \<notin> set (wrong_letters ?st)" by (simp add: initial_state_def)
  have h5: "0 \<le> attempt ?st \<and> attempt ?st < 7" by (simp add: initial_state_def)
  have h6: "strip ''x'' \<in> set (wrong_letters ?st1)" using h1 by simp
  from duplicate_wrong_guess_rejected [of "''x''" ?st "''dog''" "[]" "CHR ''x''"]
       duplicate_wrong_guess_rejected [of "''x''" ?st1 "''dog''" "[]" "CHR ''x''"]
       h1 h2 h3 h4 h5 h6
  show ?thesis
    by (simp add: initial_state_def process_guess_def str_isalpha_def hangman_stage_def)
qed

section \<open>The loop\<close>

lemma game_loop_terminal_flushed:
  assumes "guessed_word word (guessed_letters st) \<or> attempt st = 7"
    and "game_loop word st inputs = Inr (r, st')"
  shows "flushed st'"
proof (cases "load_players (json_file st)")
  case (Inl e)
  then have "game_loop word st inputs = Inl e"
    using assms(1)
    by (auto simp: game_loop.simps [of word st inputs] Let_def update_player_def hangman_stage_def)
  with assms(2) show ?thesis by simp
next
  case (Inr ps)
  show ?thesis
  proof (cases "guessed_word word (guessed_letters st)")
    case True
    from game_loop_won [OF True Inr, of inputs] assms(2) show ?thesis
      by (auto simp: flushed_def stored_entry_def load_players_def update_conv')
  next
    case False
    with assms(1) have "attempt st = 7" by simp
    from game_loop_lost [OF False this Inr, of inputs] assms(2) show ?thesis
      by (auto simp: flushed_def stored_entry_def load_players_def update_conv')
  qed
qed

lemma game_loop_returns_flushed:
  "game_loop word st inputs = Inr (r, st') \<Longrightarrow> flushed st'"
proof (induction inputs arbitrary: st)
  case Nil
  show ?case
  proof (cases "guessed_word word (guessed_letters st) \<or> attempt st = 7")
    case True
    then show ?thesis using Nil by (rule game_loop_terminal_flushed)
  next
    case False
    then have "game_loop word st [] = Inl EOFError" by (simp add: game_loop_eof)
    with Nil show ?thesis by simp
  qed
next
  case (Cons line rest)
  show ?case
  proof (cases "guessed_word word (guessed_letters st) \<or> attempt st = 7")
    case True
    then show ?thesis using Cons.prems by (rule game_loop_terminal_flushed)
  next
    case False
    then have step: "game_loop word st (line # rest) =
        (case process_guess word st line of Inl e \<Rightarrow> Inl e | Inr st1 \<Rightarrow> game_loop word st1 rest)"
      by (simp add: game_loop_step)
    show ?thesis
    proof (cases "process_guess word st line")
      case (Inl e)
      with step Cons.prems show ?thesis by simp
    next
      case (Inr st1)
      with step Cons.prems have "game_loop word st1 rest = Inr (r, st')" by simp
      then show ?thesis by (rule Cons.IH)
    qed
  qed
qed

text \<open>
  C1, as amended. A guess never writes the file: whatever the line, the file after the
  pass is the file before it, so a correct guess adds 10 to the score in memory only.
  The file is written when the round returns: whenever the loop returns, won or lost,
  loading the file gives for the player's name the player's current score and rounds.
\<close>

theorem flushed_when_round_returns:
  "(\<forall>st'. process_guess word st line = Inr st' \<longrightarrow> json_file st' = json_file st)
   \<and> (\<forall>r st'. game_loop word st inputs = Inr (r, st') \<longrightarrow> flushed st')"
  using process_guess_file game_loop_returns_flushed by blast

theorem flushed_when_round_returns_witness:
  "process_guess ''cat'' (initial_state ''cat'' (new_player ''bob'') (Json [(''bob'', [(''Score'', 0), (''Rounds'', 0)])])) ''c''
     = Inr \<lparr>guessed_letters = ''c__'', wrong_letters = [], attempt = 0,
            player = \<lparr>player_name = ''bob'', score = 10, rounds = 0\<rparr>,
            json_file = Json [(''bob'', [(''Score'', 0), (''Rounds'', 0)])]\<rparr>
   \<and> game_loop ''cat'' (initial_state ''cat'' (new_player ''bob'') (Json [(''bob'', [(''Score'', 0), (''Rounds'', 0)])]))
        [''c'', ''a'', ''t'']
     = Inr ((True, None),
         \<lparr>guessed_letters = ''cat'', wrong_letters = [], attempt = 0,
          player = \<lparr>player_name = ''bob'', score = 30, rounds = 1\<rparr>,
          json_file = Json [(''bob'', [(''Score'', 30), (''Rounds'', 1)])]\<rparr>)
   \<and> flushed \<lparr>guessed_letters = ''cat'', wrong_letters = [], attempt = 0,
          player = \<lparr>player_name = ''bob'', score = 30, rounds = 1\<rparr>,
          json_file = Json [(''bob'', [(''Score'', 30), (''Rounds'', 1)])]\<rparr>"
proof -
  let ?st = "initial_state ''cat'' (new_player ''bob'') (Json [(''bob'', [(''Score'', 0), (''Rounds'', 0)])])"
  have g: "game_loop ''cat'' ?st [''c'', ''a'', ''t'']
     = Inr ((True, None),
         \<lparr>guessed_letters = ''cat'', wrong_letters = [], attempt = 0,
          player = \<lparr>player_name = ''bob'', score = 30, rounds = 1\<rparr>,
          json_file = Json [(''bob'', [(''Score'', 30), (''Rounds'', 1)])]\<rparr>)"
    by (simp add: game_loop.simps process_guess_def initial_state_def new_player_def
        guessed_word_def strip_def isspace_def str_isalpha_def isalpha_def
        update_player_def load_players_def entry_of_def Let_def)
  have p: "process_guess ''cat'' ?st ''c''
     = Inr \<lparr>guessed_letters = ''c__'', wrong_letters = [], attempt = 0,
            player = \<lparr>player_name = ''bob'', score = 10, rounds = 0\<rparr>,
            json_file = Json [(''bob'', [(''Score'', 0), (''Rounds'', 0)])]\<rparr>"
    by (simp add: process_guess_def initial_state_def new_player_def
        strip_def isspace_def str_isalpha_def isalpha_def)
  have "flushed \<lparr>guessed_letters = ''cat'', wrong_letters = [], attempt = 0,
          player = \<lparr>player_name = ''bob'', score = 30, rounds = 1\<rparr>,
          json_file = Json [(''bob'', [(''Score'', 30), (''Rounds'', 1)])]\<rparr>"
    using flushed_when_round_returns [of "''cat''" ?st "''c''" "[''c'', ''a'', ''t'']"] g
    by blast
  with g p show ?thesis by simp
qed

text \<open>
  C1, as stated, fails. A player \<open>bob\<close> just created has the entry Score 0, Rounds 0
  in the file. After the correct guess \<open>c\<close> on the word \<open>cat\<close> the score in memory is
  10, and the file, not written by the guess, still gives Score 0.
\<close>

theorem flush_after_guess_counterexample:
  "create_player ''bob'' Missing
     = Inr (new_player ''bob'', Json [(''bob'', [(''Score'', 0), (''Rounds'', 0)])])
   \<and> process_guess ''cat'' (initial_state ''cat'' (new_player ''bob'') (Json [(''bob'', [(''Score'', 0), (''Rounds'', 0)])])) ''c''
     = Inr \<lparr>guessed_letters = ''c__'', wrong_letters = [], attempt = 0,
            player = \<lparr>player_name = ''bob'', score = 10, rounds = 0\<rparr>,
            json_file = Json [(''bob'', [(''Score'', 0), (''Rounds'', 0)])]\<rparr>
   \<and> stored_entry \<lparr>guessed_letters = ''c__'', wrong_letters = [], attempt = 0,
            player = \<lparr>player_name = ''bob'', score = 10, rounds = 0\<rparr>,
            json_file = Json [(''bob'', [(''Score'', 0), (''Rounds'', 0)])]\<rparr>
     = Inr (Some [(''Score'', 0), (''Rounds'', 0)])
   \<and> \<not> flushed \<lparr>guessed_letters = ''c__'', wrong_letters = [], attempt = 0,
            player = \<lparr>player_name = ''bob'', score = 10, rounds = 0\<rparr>,
            json_file = Json [(''bob'', [(''Score'', 0), (''Rounds'', 0)])]\<rparr>"
  by (simp add: create_player_def process_guess_def initial_state_def new_player_def
      strip_def isspace_def str_isalpha_def isalpha_def flushed_def stored_entry_def
      load_players_def entry_of_def Let_def)

text \<open>
  C4. The win check comes first in every pass: when every letter of the word is among
  the revealed letters, the loop cannot return anything but the won outcome, whatever
  the attempt count is (7 included), and on a file that is missing or holds a mapping
  it does return it.
\<close>

theorem win_check_before_attempt_limit:
  assumes "guessed_word word (guessed_letters st)"
  shows "(\<forall>r st'. game_loop word (st\<lparr>attempt := a\<rparr>) inputs = Inr (r, st') \<longrightarrow> r = (True, None))
         \<and> (json_file st \<noteq> Unparsable \<longrightarrow>
              (\<exists>st'. game_loop word (st\<lparr>attempt := a\<rparr>) inputs = Inr ((True, None), st')
                  \<and> attempt st' = a))"
proof (intro conjI allI impI)
  fix r st'
  assume "game_loop word (st\<lparr>attempt := a\<rparr>) inputs = Inr (r, st')"
  then show "r = (True, None)"
    using assms
    by (auto simp: game_loop.simps [of word "st\<lparr>attempt := a\<rparr>" inputs] Let_def split: sum.splits)
next
  assume "json_file st \<noteq> Unparsable"
  then obtain ps where "load_players (json_file (st\<lparr>attempt := a\<rparr>)) = Inr ps"
    using load_players_readable by fastforce
  moreover have "guessed_word word (guessed_letters (st\<lparr>attempt := a\<rparr>))"
    using assms by simp
  ultimately show "\<exists>st'. game_loop word (st\<lparr>attempt := a\<rparr>) inputs = Inr ((True, None), st')
                  \<and> attempt st' = a"
    by (simp add: game_loop_won)
qed

theorem win_check_before_attempt_limit_witness:
  "guessed_word ''cat'' (guessed_letters \<lparr>guessed_letters = ''cat'', wrong_letters = [], attempt = 0,
          player = new_player ''bob'', json_file = Missing\<rparr>)
   \<and> Missing \<noteq> Unparsable
   \<and> game_loop ''cat'' \<lparr>guessed_letters = ''cat'', wrong_letters = [], attempt = 7,
          player = new_player ''bob'', json_file = Missing\<rparr> []
     = Inr ((True, None),
         \<lparr>guessed_letters = ''cat'', wrong_letters = [], attempt = 7,
          player = \<lparr>player_name = ''bob'', score = 0, rounds = 1\<rparr>,
          json_file = Json [(''bob'', [(''Score'', 0), (''Rounds'', 1)])]\<rparr>)"
proof -
  let ?st = "\<lparr>guessed_letters = ''cat'', wrong_letters = [], attempt = 0,
          player = new_player ''bob'', json_file = Missing\<rparr>"
  have h: "guessed_word ''cat'' (guessed_letters ?st)"
    by (simp add: guessed_word_def)
  from win_check_before_attempt_limit [OF h, of 7 "[]"] h show ?thesis
    by (simp add: game_loop.simps new_player_def update_player_def load_players_def
        entry_of_def Let_def)
qed

section \<open>Whole rounds\<close>

lemma guessed_word_blank:
  "guessed_word w (replicate (length w) CHR ''_'') \<longleftrightarrow> (\<forall>l\<in>set w. l = CHR ''_'')"
  by (cases w) (auto simp: guessed_word_def list_all_iff)

lemma words_have_letter: "w \<in> set words \<Longrightarrow> \<exists>l\<in>set w. l \<noteq> CHR ''_''"
proof -
  assume w: "w \<in> set words"
  then have "w \<noteq> []" by (rule words_nonempty)
  then obtain l where l: "l \<in> set w" by (cases w) auto
  from w have "list_all isalpha w" by (rule words_alpha)
  with l have "isalpha l" by (simp add: list_all_iff)
  then have "l \<noteq> CHR ''_''" using underscore_not_alpha by auto
  with l show ?thesis by blast
qed

lemma shown_empty: "shown {} w = replicate (length w) CHR ''_''"
  by (induction w) (simp_all add: shown_def)

lemma shown_insert:
  "map2 (\<lambda>l x. if l = g then g else x) w (shown S w) = shown (insert g S) w"
  by (induction w) (auto simp: shown_def)

lemma shown_all: "set w \<subseteq> S \<Longrightarrow> shown S w = w"
  by (induction w) (simp_all add: shown_def)

lemma guessed_word_self: "guessed_word w w"
  by (simp add: guessed_word_def list_all_iff)

lemma correct_guesses_win:
  assumes "list_all isalpha w" "set cs \<subseteq> set w" "set w \<subseteq> S \<union> set cs"
    and "guessed_letters st = shown S w" "wrong_letters st = []" "attempt st \<noteq> 7"
    and "load_players (json_file st) = Inr ps"
  shows "\<exists>st'. game_loop w st (map (\<lambda>c. [c]) cs @ rest) = Inr ((True, None), st')
           \<and> rounds (player st') = rounds (player st) + 1
           \<and> player_name (player st') = player_name (player st)
           \<and> wrong_letters st' = [] \<and> attempt st' = attempt st \<and> flushed st'"
  using assms
proof (induction cs arbitrary: S st)
  case Nil
  then have "guessed_letters st = w" by (simp add: shown_all)
  then have "guessed_word w (guessed_letters st)" by (simp add: guessed_word_self)
  from game_loop_won [OF this Nil.prems(7)] Nil.prems(5) show ?case
    by (simp add: flushed_def stored_entry_def load_players_def update_conv')
next
  case (Cons c cs)
  show ?case
  proof (cases "guessed_word w (guessed_letters st)")
    case True
    from game_loop_won [OF True Cons.prems(7)] Cons.prems(5) show ?thesis
      by (simp add: flushed_def stored_entry_def load_players_def update_conv')
  next
    case False
    from Cons.prems have c: "c \<in> set w" "isalpha c"
      by (auto simp: list_all_iff)
    let ?st1 = "st\<lparr>guessed_letters := map2 (\<lambda>l x. if l = c then c else x) w (guessed_letters st),
                   player := (player st)\<lparr>score := score (player st) + 10\<rparr>\<rparr>"
    have "process_guess w st [c] = Inr ?st1"
      using c Cons.prems(4,5) by (intro process_guess_correct) (simp_all add: strip_letter shown_def)
    then have step: "game_loop w st (map (\<lambda>c. [c]) (c # cs) @ rest) = game_loop w ?st1 (map (\<lambda>c. [c]) cs @ rest)"
      using False Cons.prems(6) by (simp add: game_loop_step)
    have "\<exists>st'. game_loop w ?st1 (map (\<lambda>c. [c]) cs @ rest) = Inr ((True, None), st')
           \<and> rounds (player st') = rounds (player ?st1) + 1
           \<and> player_name (player st') = player_name (player ?st1)
           \<and> wrong_letters st' = [] \<and> attempt st' = attempt ?st1 \<and> flushed st'"
    proof (rule Cons.IH [where S = "insert c S"])
      show "list_all isalpha w" by (rule Cons.prems(1))
      show "set cs \<subseteq> set w" using Cons.prems(2) by simp
      show "set w \<subseteq> insert c S \<union> set cs" using Cons.prems(3) by auto
      show "guessed_letters ?st1 = shown (insert c S) w"
        using Cons.prems(4) by (simp add: shown_insert)
      show "wrong_letters ?st1 = []" using Cons.prems(5) by simp
      show "attempt ?st1 \<noteq> 7" using Cons.prems(6) by simp
      show "load_players (json_file ?st1) = Inr ps" using Cons.prems(7) by simp
    qed
    with step show ?thesis by simp
  qed
qed

text \<open>
  C2. When every letter of the word is among the revealed letters (as when the revealed
  letters are the word itself), the loop returns the won outcome \<open>(True, None)\<close>:
  the rounds of the player are one more, the score is the same, and the file holds the
  player's score and new rounds. And for every word of
  the list, lines that guess letters of the word only and cover all its letters
  win the round. (The file is one that is missing or holds a mapping.)
\<close>

theorem all_revealed_wins:
  "(guessed_word word (guessed_letters st) \<and> json_file st \<noteq> Unparsable \<longrightarrow>
      (\<exists>st'. game_loop word st inputs = Inr ((True, None), st')
          \<and> rounds (player st') = rounds (player st) + 1
          \<and> score (player st') = score (player st)
          \<and> flushed st'))
   \<and> (w \<in> set words \<and> set cs = set w \<and> f \<noteq> Unparsable \<longrightarrow>
      (\<exists>st'. play_game w p f (map (\<lambda>c. [c]) cs @ rest) = Inr ((True, None), st')
          \<and> rounds (player st') = rounds p + 1
          \<and> flushed st'))"
proof (intro conjI impI)
  assume h: "guessed_word word (guessed_letters st) \<and> json_file st \<noteq> Unparsable"
  then obtain ps where ps: "load_players (json_file st) = Inr ps"
    using load_players_readable by blast
  from h have "guessed_word word (guessed_letters st)" by simp
  from game_loop_won [OF this ps, of inputs]
  show "\<exists>st'. game_loop word st inputs = Inr ((True, None), st')
          \<and> rounds (player st') = rounds (player st) + 1
          \<and> score (player st') = score (player st)
          \<and> flushed st'"
    by (simp add: flushed_def stored_entry_def load_players_def update_conv')
next
  assume h: "w \<in> set words \<and> set cs = set w \<and> f \<noteq> Unparsable"
  then obtain ps where ps: "load_players f = Inr ps"
    using load_players_readable by blast
  let ?st = "initial_state w p f"
  have "\<exists>st'. game_loop w ?st (map (\<lambda>c. [c]) cs @ rest) = Inr ((True, None), st')
           \<and> rounds (player st') = rounds (player ?st) + 1
           \<and> player_name (player st') = player_name (player ?st)
           \<and> wrong_letters st' = [] \<and> attempt st' = attempt ?st \<and> flushed st'"
  proof (rule correct_guesses_win [where S = "{}" and ps = ps])
    show "list_all isalpha w" using h by (simp add: words_alpha)
    show "set cs \<subseteq> set w" using h by simp
    show "set w \<subseteq> {} \<union> set cs" using h by simp
    show "guessed_letters ?st = shown {} w" by (simp add: initial_state_def shown_empty)
    show "wrong_letters ?st = []" by (simp add: initial_state_def)
    show "attempt ?st \<noteq> 7" by (simp add: initial_state_def)
    show "load_players (json_file ?st) = Inr ps" using ps by (simp add: initial_state_def)
  qed
  then show "\<exists>st'. play_game w p f (map (\<lambda>c. [c]) cs @ rest) = Inr ((True, None), st')
          \<and> rounds (player st') = rounds p + 1 \<and> flushed st'"
    by (auto simp: play_game_def initial_state_def)
qed


theorem all_revealed_wins_witness:
  "guessed_word ''cat'' (guessed_letters \<lparr>guessed_letters = ''cat'', wrong_letters = [''x''], attempt = 1,
          player = \<lparr>player_name = ''bob'', score = 30, rounds = 0\<rparr>, json_file = Missing\<rparr>)
   \<and> json_file \<lparr>guessed_letters = ''cat'', wrong_letters = [''x''], attempt = 1,
          player = \<lparr>player_name = ''bob'', score = 30, rounds = 0\<rparr>, json_file = Missing\<rparr> \<noteq> Unparsable
   \<and> game_loop ''cat'' \<lparr>guessed_letters = ''cat'', wrong_letters = [''x''], attempt = 1,
          player = \<lparr>player_name = ''bob'', score = 30, rounds = 0\<rparr>, json_file = Missing\<rparr> []
     = Inr ((True, None),
         \<lparr>guessed_letters = ''cat'', wrong_letters = [''x''], attempt = 1,
          player = \<lparr>player_name = ''bob'', score = 30, rounds = 1\<rparr>,
          json_file = Json [(''bob'', [(''Score'', 30), (''Rounds'', 1)])]\<rparr>)
   \<and> ''cat'' \<in> set words \<and> set ''tac'' = set ''cat'' \<and> Missing \<noteq> Unparsable
   \<and> play_game ''cat'' (new_player ''bob'') Missing (map (\<lambda>c. [c]) ''tac'' @ [])
     = Inr ((True, None),
         \<lparr>guessed_letters = ''cat'', wrong_letters = [], attempt = 0,
          player = \<lparr>player_name = ''bob'', score = 30, rounds = 1\<rparr>,
          json_file = Json [(''bob'', [(''Score'', 30), (''Rounds'', 1)])]\<rparr>)"
proof -
  let ?st = "\<lparr>guessed_letters = ''cat'', wrong_letters = [''x''], attempt = 1,
          player = \<lparr>player_name = ''bob'', score = 30, rounds = 0\<rparr>, json_file = Missing\<rparr>"
  have h1: "guessed_word ''cat'' (guessed_letters ?st)" by (simp add: guessed_word_def)
  have h2: "json_file ?st \<noteq> Unparsable" by simp
  have h3: "''cat'' \<in> set words" by (simp add: words_def)
  have h4: "set ''tac'' = set ''cat''" by auto
  have g: "game_loop ''cat'' ?st [] = Inr ((True, None),
         \<lparr>guessed_letters = ''cat'', wrong_letters = [''x''], attempt = 1,
          player = \<lparr>player_name = ''bob'', score = 30, rounds = 1\<rparr>,
          json_file = Json [(''bob'', [(''Score'', 30), (''Rounds'', 1)])]\<rparr>)"
    by (simp add: game_loop.simps guessed_word_def update_player_def load_players_def
        entry_of_def Let_def)
  have p: "play_game ''cat'' (new_player ''bob'') Missing (map (\<lambda>c. [c]) ''tac'' @ [])
     = Inr ((True, None),
         \<lparr>guessed_letters = ''cat'', wrong_letters = [], attempt = 0,
          player = \<lparr>player_name = ''bob'', score = 30, rounds = 1\<rparr>,
          json_file = Json [(''bob'', [(''Score'', 30), (''Rounds'', 1)])]\<rparr>)"
    by (simp add: play_game_def game_loop.simps process_guess_def initial_state_def new_player_def
        guessed_word_def strip_def isspace_def str_isalpha_def isalpha_def
        update_player_def load_players_def entry_of_def Let_def)
  from all_revealed_wins [where word = "''cat''" and st = ?st and inputs = "[]"
      and w = "''cat''" and cs = "''tac''" and f = Missing and p = "new_player ''bob''" and rest = "[]"]
    h1 h2 h3 h4 g p
  show ?thesis by simp
qed

lemma wrong_guesses_lose:
  assumes "\<not> guessed_word w (guessed_letters st)"
    and "wrong_letters st = map (\<lambda>c. [c]) ds" "attempt st = int (length ds)"
    and "length ds + length cs = 7" "distinct (ds @ cs)"
    and "\<forall>c\<in>set cs. isalpha c \<and> c \<notin> set w"
    and "load_players (json_file st) = Inr ps"
  shows "\<exists>st'. game_loop w st (map (\<lambda>c. [c]) cs @ rest) = Inr ((False, Some w), st')
           \<and> attempt st' = 7 \<and> wrong_letters st' = map (\<lambda>c. [c]) (ds @ cs)
           \<and> player st' = player st \<and> guessed_letters st' = guessed_letters st \<and> flushed st'"
  using assms
proof (induction cs arbitrary: ds st)
  case Nil
  then have a7: "attempt st = 7" by simp
  from game_loop_lost [OF Nil.prems(1) a7 Nil.prems(7)] Nil.prems(2) a7 show ?case
    by (simp add: flushed_def stored_entry_def load_players_def update_conv')
next
  case (Cons c cs)
  have rng: "- 7 \<le> attempt st" "attempt st < 7" "attempt st \<noteq> 7"
    using Cons.prems(3,4) by simp_all
  have c: "isalpha c" "c \<notin> set w" "c \<notin> set ds"
    using Cons.prems(5,6) by auto
  have nd: "[c] \<notin> set (wrong_letters st)"
    using c(3) Cons.prems(2) by auto
  let ?st1 = "st\<lparr>wrong_letters := wrong_letters st @ [[c]], attempt := attempt st + 1\<rparr>"
  have "process_guess w st [c] = Inr ?st1"
    using c nd rng by (intro process_guess_wrong) (simp_all add: strip_letter)
  then have step: "game_loop w st (map (\<lambda>c. [c]) (c # cs) @ rest) = game_loop w ?st1 (map (\<lambda>c. [c]) cs @ rest)"
    using Cons.prems(1) rng(3) by (simp add: game_loop_step)
  have "\<exists>st'. game_loop w ?st1 (map (\<lambda>c. [c]) cs @ rest) = Inr ((False, Some w), st')
           \<and> attempt st' = 7 \<and> wrong_letters st' = map (\<lambda>c. [c]) ((ds @ [c]) @ cs)
           \<and> player st' = player ?st1 \<and> guessed_letters st' = guessed_letters ?st1 \<and> flushed st'"
  proof (rule Cons.IH)
    show "\<not> guessed_word w (guessed_letters ?st1)" using Cons.prems(1) by simp
    show "wrong_letters ?st1 = map (\<lambda>c. [c]) (ds @ [c])" using Cons.prems(2) by simp
    show "attempt ?st1 = int (length (ds @ [c]))" using Cons.prems(3) by simp
    show "length (ds @ [c]) + length cs = 7" using Cons.prems(4) by simp
    show "distinct ((ds @ [c]) @ cs)" using Cons.prems(5) by simp
    show "\<forall>c\<in>set cs. isalpha c \<and> c \<notin> set w" using Cons.prems(6) by simp
    show "load_players (json_file ?st1) = Inr ps" using Cons.prems(7) by simp
  qed
  with step show ?case by simp
qed

lemma flushed_entry:
  assumes "flushed st"
  shows "\<exists>ps. load_players (json_file st) = Inr ps
           \<and> map_of ps (player_name (player st))
               = Some [(''Score'', score (player st)), (''Rounds'', rounds (player st))]"
  using assms
  by (auto simp: flushed_def stored_entry_def entry_of_def split: sum.splits)

text \<open>
  C3. A round on a word \<open>w\<close> that has a letter other than the underscore (as every word
  of the list has), fed 7 distinct alphabetic letters that do not occur in \<open>w\<close>, returns
  the lost outcome with the word, \<open>(False, w)\<close>, after the 7th: the attempt count is 7,
  the wrong letters are those 7, the player is as at the start (the score and the rounds
  are as accumulated before the round, the rounds not incremented), and loading the file
  gives for the player's name the entry with \<^verbatim>\<open>Score\<close> the player's score and
  \<^verbatim>\<open>Rounds\<close> the player's rounds. (The file is one that is missing or holds a
  mapping.)
\<close>

theorem seven_wrong_guesses_lose:
  assumes "\<exists>l\<in>set w. l \<noteq> CHR ''_''"
    and "length cs = 7" "distinct cs" "\<forall>c\<in>set cs. isalpha c \<and> c \<notin> set w"
    and "f \<noteq> Unparsable"
  shows "\<exists>st' ps'. play_game w p f (map (\<lambda>c. [c]) cs @ rest) = Inr ((False, Some w), st')
           \<and> attempt st' = 7 \<and> wrong_letters st' = map (\<lambda>c. [c]) cs
           \<and> player st' = p
           \<and> load_players (json_file st') = Inr ps'
           \<and> map_of ps' (player_name p) = Some [(''Score'', score p), (''Rounds'', rounds p)]"
proof -
  from assms(5) obtain ps where ps: "load_players f = Inr ps"
    using load_players_readable by blast
  let ?st = "initial_state w p f"
  have "\<exists>st'. game_loop w ?st (map (\<lambda>c. [c]) cs @ rest) = Inr ((False, Some w), st')
           \<and> attempt st' = 7 \<and> wrong_letters st' = map (\<lambda>c. [c]) ([] @ cs)
           \<and> player st' = player ?st \<and> guessed_letters st' = guessed_letters ?st \<and> flushed st'"
  proof (rule wrong_guesses_lose [where ps = ps])
    show "\<not> guessed_word w (guessed_letters ?st)"
      using assms(1) by (simp add: initial_state_def guessed_word_blank)
    show "wrong_letters ?st = map (\<lambda>c. [c]) []" by (simp add: initial_state_def)
    show "attempt ?st = int (length ([] :: string))" by (simp add: initial_state_def)
    show "length ([] :: string) + length cs = 7" using assms(2) by simp
    show "distinct ([] @ cs)" using assms(3) by simp
    show "\<forall>c\<in>set cs. isalpha c \<and> c \<notin> set w" by (rule assms(4))
    show "load_players (json_file ?st) = Inr ps" using ps by (simp add: initial_state_def)
  qed
  then obtain st' where st':
    "play_game w p f (map (\<lambda>c. [c]) cs @ rest) = Inr ((False, Some w), st')"
    "attempt st' = 7" "wrong_letters st' = map (\<lambda>c. [c]) cs" "player st' = p" "flushed st'"
    by (auto simp: play_game_def initial_state_def)
  from flushed_entry [OF st'(5)] st'(4) obtain ps' where
    "load_players (json_file st') = Inr ps'"
    "map_of ps' (player_name p) = Some [(''Score'', score p), (''Rounds'', rounds p)]"
    by auto
  with st'(1-4) show ?thesis by blast
qed

theorem seven_wrong_guesses_lose_witness:
  "(\<exists>l\<in>set ''dog''. l \<noteq> CHR ''_'') \<and> length ''xyzqwer'' = 7 \<and> distinct ''xyzqwer''
   \<and> list_all (\<lambda>c. isalpha c \<and> c \<notin> set ''dog'') ''xyzqwer''
   \<and> Json [(''amy'', [(''Score'', 5), (''Rounds'', 1)]), (''bob'', [(''Score'', 10), (''Rounds'', 2)])] \<noteq> Unparsable
   \<and> play_game ''dog'' \<lparr>player_name = ''bob'', score = 40, rounds = 3\<rparr>
        (Json [(''amy'', [(''Score'', 5), (''Rounds'', 1)]), (''bob'', [(''Score'', 10), (''Rounds'', 2)])])
        (map (\<lambda>c. [c]) ''xyzqwer'' @ [''d''])
     = Inr ((False, Some ''dog''),
         \<lparr>guessed_letters = ''___'',
          wrong_letters = [''x'', ''y'', ''z'', ''q'', ''w'', ''e'', ''r''], attempt = 7,
          player = \<lparr>player_name = ''bob'', score = 40, rounds = 3\<rparr>,
          json_file = Json [(''amy'', [(''Score'', 5), (''Rounds'', 1)]),
                            (''bob'', [(''Score'', 40), (''Rounds'', 3)])]\<rparr>)
   \<and> load_players (Json [(''amy'', [(''Score'', 5), (''Rounds'', 1)]),
                            (''bob'', [(''Score'', 40), (''Rounds'', 3)])])
     = Inr [(''amy'', [(''Score'', 5), (''Rounds'', 1)]), (''bob'', [(''Score'', 40), (''Rounds'', 3)])]
   \<and> map_of [(''amy'', [(''Score'', 5), (''Rounds'', 1)]), (''bob'', [(''Score'', 40), (''Rounds'', 3)])] ''bob''
     = Some [(''Score'', 40), (''Rounds'', 3)]"
proof -
  let ?p = "\<lparr>player_name = ''bob'', score = 40, rounds = 3\<rparr>"
  let ?f = "Json [(''amy'', [(''Score'', 5), (''Rounds'', 1)]), (''bob'', [(''Score'', 10), (''Rounds'', 2)])]"
  have h1: "\<exists>l\<in>set ''dog''. l \<noteq> CHR ''_''" by simp
  have h2: "length ''xyzqwer'' = 7" by simp
  have h3: "distinct ''xyzqwer''" by simp
  have h4: "\<forall>c\<in>set ''xyzqwer''. isalpha c \<and> c \<notin> set ''dog''" by (simp add: isalpha_def)
  have h5: "?f \<noteq> Unparsable" by simp
  have p: "play_game ''dog'' ?p ?f (map (\<lambda>c. [c]) ''xyzqwer'' @ [''d''])
     = Inr ((False, Some ''dog''),
         \<lparr>guessed_letters = ''___'',
          wrong_letters = [''x'', ''y'', ''z'', ''q'', ''w'', ''e'', ''r''], attempt = 7,
          player = \<lparr>player_name = ''bob'', score = 40, rounds = 3\<rparr>,
          json_file = Json [(''amy'', [(''Score'', 5), (''Rounds'', 1)]),
                            (''bob'', [(''Score'', 40), (''Rounds'', 3)])]\<rparr>)"
    by (simp add: play_game_def game_loop.simps process_guess_def initial_state_def
        guessed_word_def strip_def isspace_def str_isalpha_def isalpha_def hangman_stage_def
        update_player_def load_players_def entry_of_def Let_def)
  have l: "load_players (Json [(''amy'', [(''Score'', 5), (''Rounds'', 1)]),
                            (''bob'', [(''Score'', 40), (''Rounds'', 3)])])
     = Inr [(''amy'', [(''Score'', 5), (''Rounds'', 1)]), (''bob'', [(''Score'', 40), (''Rounds'', 3)])]"
    by (simp add: load_players_def)
  from seven_wrong_guesses_lose [OF h1 h2 h3 h4 h5, of ?p "[''d'']"] h1 h2 h3 h4 h5 p l
  show ?thesis by (simp add: list_all_iff)
qed

lemma reveal_again:
  assumes "length gl = length word" "\<forall>i<length word. word ! i = g \<longrightarrow> gl ! i = g"
  shows "map2 (\<lambda>l x. if l = g then g else x) word gl = gl"
  using assms by (intro nth_equalityI) simp_all

lemma process_guess_again:
  assumes "strip line = [g]" "isalpha g" "[g] \<notin> set (wrong_letters st)" "g \<in> set word"
    and "length (guessed_letters st) = length word"
    and "\<forall>i<length word. word ! i = g \<longrightarrow> guessed_letters st ! i = g"
  shows "process_guess word st line = Inr (st\<lparr>player := (player st)\<lparr>score := score (player st) + 10\<rparr>\<rparr>)"
  using process_guess_correct [OF assms(1-5)] reveal_again [OF assms(5,6)] by simp

lemma repeat_revealed:
  assumes "isalpha g" "g \<in> set word" "[g] \<notin> set (wrong_letters st)"
    and "length (guessed_letters st) = length word"
    and "\<forall>i<length word. word ! i = g \<longrightarrow> guessed_letters st ! i = g"
    and "\<not> guessed_word word (guessed_letters st)" "attempt st \<noteq> 7"
  shows "game_loop word st (replicate n [g] @ rest) =
         game_loop word (st\<lparr>player := (player st)\<lparr>score := score (player st) + 10 * int n\<rparr>\<rparr>) rest"
  using assms
proof (induction n arbitrary: st)
  case 0
  then show ?case by simp
next
  case (Suc n)
  let ?st1 = "st\<lparr>player := (player st)\<lparr>score := score (player st) + 10\<rparr>\<rparr>"
  have "process_guess word st [g] = Inr ?st1"
    using Suc.prems(1-5) by (intro process_guess_again) (simp_all add: strip_letter)
  then have "game_loop word st (replicate (Suc n) [g] @ rest) = game_loop word ?st1 (replicate n [g] @ rest)"
    using Suc.prems(6,7) by (simp add: game_loop_step)
  also have "\<dots> = game_loop word (?st1\<lparr>player := (player ?st1)\<lparr>score := score (player ?st1) + 10 * int n\<rparr>\<rparr>) rest"
    using Suc.prems by (intro Suc.IH) simp_all
  also have "?st1\<lparr>player := (player ?st1)\<lparr>score := score (player ?st1) + 10 * int n\<rparr>\<rparr>
        = st\<lparr>player := (player st)\<lparr>score := score (player st) + 10 * int (Suc n)\<rparr>\<rparr>"
    by simp
  finally show ?case .
qed

lemma cat_round:
  assumes "load_players f = Inr ps"
  shows "play_game ''cat'' p f (''c'' # replicate n ''c'' @ [''a'', ''t'']) =
         Inr ((True, None),
           \<lparr>guessed_letters = ''cat'', wrong_letters = [], attempt = 0,
            player = p\<lparr>score := score p + 10 * (int n + 3), rounds := rounds p + 1\<rparr>,
            json_file = Json (AList.update (player_name p)
               [(''Score'', score p + 10 * (int n + 3)), (''Rounds'', rounds p + 1)] ps)\<rparr>)"
proof -
  let ?st0 = "initial_state ''cat'' p f"
  let ?st1 = "\<lparr>guessed_letters = ''c__'', wrong_letters = [], attempt = 0,
              player = p\<lparr>score := score p + 10\<rparr>, json_file = f\<rparr>"
  let ?st2 = "?st1\<lparr>player := (player ?st1)\<lparr>score := score (player ?st1) + 10 * int n\<rparr>\<rparr>"
  have ng: "\<not> guessed_word ''cat'' (guessed_letters ?st0)" "attempt ?st0 \<noteq> 7"
    by (simp_all add: initial_state_def guessed_word_def)
  have pg: "process_guess ''cat'' ?st0 ''c'' = Inr ?st1"
    by (simp add: process_guess_def initial_state_def
        strip_def isspace_def str_isalpha_def isalpha_def)
  have "play_game ''cat'' p f (''c'' # replicate n ''c'' @ [''a'', ''t''])
        = game_loop ''cat'' ?st1 (replicate n ''c'' @ [''a'', ''t''])"
    unfolding play_game_def using ng pg by (simp add: game_loop_step)
  also have "\<dots> = game_loop ''cat'' ?st2 [''a'', ''t'']"
    by (rule repeat_revealed) (simp_all add: isalpha_def guessed_word_def nth_Cons')
  also have "\<dots> = Inr ((True, None),
           \<lparr>guessed_letters = ''cat'', wrong_letters = [], attempt = 0,
            player = p\<lparr>score := score p + 10 * (int n + 3), rounds := rounds p + 1\<rparr>,
            json_file = Json (AList.update (player_name p)
               [(''Score'', score p + 10 * (int n + 3)), (''Rounds'', rounds p + 1)] ps)\<rparr>)"
    using assms
    by (simp add: game_loop.simps process_guess_def
        guessed_word_def strip_def isspace_def str_isalpha_def isalpha_def
        update_player_def entry_of_def Let_def add.commute add.left_commute)
  finally show ?thesis .
qed

text \<open>
  C10. An accepted guess of a letter of the word whose occurrences are all revealed
  already takes the correct-guess branch again: the score grows by another 10 and
  nothing else changes (revealed letters, wrong letters, attempt count, rounds, file).
  So the score of one round is not bounded: on the word \<open>cat\<close>, the letter \<open>c\<close>
  guessed \<open>n + 1\<close> times and then \<open>a\<close> and \<open>t\<close> win the round with \<open>10 * (n + 3)\<close>
  points earned, more than 10 times the 3 distinct letters of the word as soon as
  \<open>n > 0\<close>.
\<close>

theorem revealed_letter_scores_again:
  "(strip line = [g] \<and> isalpha g \<and> [g] \<notin> set (wrong_letters st) \<and> g \<in> set word
      \<and> length (guessed_letters st) = length word
      \<and> (\<forall>i<length word. word ! i = g \<longrightarrow> guessed_letters st ! i = g) \<longrightarrow>
      process_guess word st line = Inr (st\<lparr>player := (player st)\<lparr>score := score (player st) + 10\<rparr>\<rparr>))
   \<and> (f \<noteq> Unparsable \<longrightarrow>
      (\<exists>st'. play_game ''cat'' p f (''c'' # replicate n ''c'' @ [''a'', ''t'']) = Inr ((True, None), st')
          \<and> score (player st') - score p = 10 * (int n + 3)
          \<and> (0 < n \<longrightarrow> 10 * int (card (set ''cat'')) < score (player st') - score p)))"
proof (intro conjI impI)
  assume "strip line = [g] \<and> isalpha g \<and> [g] \<notin> set (wrong_letters st) \<and> g \<in> set word
      \<and> length (guessed_letters st) = length word
      \<and> (\<forall>i<length word. word ! i = g \<longrightarrow> guessed_letters st ! i = g)"
  then show "process_guess word st line = Inr (st\<lparr>player := (player st)\<lparr>score := score (player st) + 10\<rparr>\<rparr>)"
    using process_guess_again [of line g st word] by blast
next
  assume "f \<noteq> Unparsable"
  then obtain ps where ps: "load_players f = Inr ps"
    using load_players_readable by blast
  have "card (set ''cat'') = 3" by simp
  with cat_round [OF ps, of p n]
  show "\<exists>st'. play_game ''cat'' p f (''c'' # replicate n ''c'' @ [''a'', ''t'']) = Inr ((True, None), st')
          \<and> score (player st') - score p = 10 * (int n + 3)
          \<and> (0 < n \<longrightarrow> 10 * int (card (set ''cat'')) < score (player st') - score p)"
    by simp
qed

theorem revealed_letter_scores_again_witness:
  "strip ''c'' = [CHR ''c''] \<and> isalpha CHR ''c''
   \<and> [CHR ''c''] \<notin> set (wrong_letters \<lparr>guessed_letters = ''c__'', wrong_letters = [], attempt = 0,
          player = \<lparr>player_name = ''bob'', score = 10, rounds = 0\<rparr>, json_file = Missing\<rparr>)
   \<and> CHR ''c'' \<in> set ''cat''
   \<and> process_guess ''cat'' \<lparr>guessed_letters = ''c__'', wrong_letters = [], attempt = 0,
          player = \<lparr>player_name = ''bob'', score = 10, rounds = 0\<rparr>, json_file = Missing\<rparr> ''c''
     = Inr \<lparr>guessed_letters = ''c__'', wrong_letters = [], attempt = 0,
          player = \<lparr>player_name = ''bob'', score = 20, rounds = 0\<rparr>, json_file = Missing\<rparr>
   \<and> Missing \<noteq> Unparsable \<and> (0::nat) < 2
   \<and> play_game ''cat'' (new_player ''bob'') Missing (''c'' # replicate 2 ''c'' @ [''a'', ''t''])
     = Inr ((True, None),
         \<lparr>guessed_letters = ''cat'', wrong_letters = [], attempt = 0,
          player = \<lparr>player_name = ''bob'', score = 50, rounds = 1\<rparr>,
          json_file = Json [(''bob'', [(''Score'', 50), (''Rounds'', 1)])]\<rparr>)
   \<and> 10 * int (card (set ''cat'')) < 50"
proof -
  let ?st = "\<lparr>guessed_letters = ''c__'', wrong_letters = [], attempt = 0,
          player = \<lparr>player_name = ''bob'', score = 10, rounds = 0\<rparr>, json_file = Missing\<rparr>"
  have h1: "strip ''c'' = [CHR ''c'']" by (simp add: strip_def isspace_def)
  have h2: "isalpha CHR ''c''" by (simp add: isalpha_def)
  have h3: "[CHR ''c''] \<notin> set (wrong_letters ?st)" by simp
  have h4: "CHR ''c'' \<in> set ''cat''" by simp
  have h5: "length (guessed_letters ?st) = length ''cat''" by simp
  have h6: "\<forall>i<length ''cat''. ''cat'' ! i = CHR ''c'' \<longrightarrow> guessed_letters ?st ! i = CHR ''c''"
    by (simp add: nth_Cons')
  have p: "play_game ''cat'' (new_player ''bob'') Missing (''c'' # replicate 2 ''c'' @ [''a'', ''t''])
     = Inr ((True, None),
         \<lparr>guessed_letters = ''cat'', wrong_letters = [], attempt = 0,
          player = \<lparr>player_name = ''bob'', score = 50, rounds = 1\<rparr>,
          json_file = Json [(''bob'', [(''Score'', 50), (''Rounds'', 1)])]\<rparr>)"
    by (simp add: numeral_2_eq_2 play_game_def game_loop.simps process_guess_def initial_state_def new_player_def
        guessed_word_def strip_def isspace_def str_isalpha_def isalpha_def
        update_player_def load_players_def entry_of_def Let_def)
  have c: "10 * int (card (set ''cat'')) < 50" by simp
  from revealed_letter_scores_again [where line = "''c''" and g = "CHR ''c''" and st = ?st
      and word = "''cat''" and f = Missing and p = "new_player ''bob''" and n = 2]
    h1 h2 h3 h4 h5 h6 p c
  show ?thesis by simp
qed

end
